theory Spec2Isabelle
  imports Complex_Main
begin

section \<open>JavaScript values used by the order converter\<close>

text \<open>
  A JavaScript string is a sequence of UTF-16 code units. A code unit is a natural number
  (below 65536 for a real string; nothing in the program tells larger values apart from any
  other non-ASCII unit). ASCII literals of the source are written \<open>js ''...''\<close>, and
  the CJK literals are given by their code units.
\<close>

type_synonym jsstring = "nat list"

definition js :: "string \<Rightarrow> jsstring" where
  "js s = map of_char s"

text \<open>\<open>\d\<close> of a regular expression without the unicode flag: the ten ASCII digits.\<close>

definition isDigit :: "nat \<Rightarrow> bool" where
  "isDigit c = (48 \<le> c \<and> c \<le> 57)"

text \<open>
  White space and line terminators of ECMAScript: what \<open>String.prototype.trim\<close>,
  \<open>\s\<close>, \<open>parseInt\<close> and \<open>parseFloat\<close> skip.
\<close>

definition isWhiteSpace :: "nat \<Rightarrow> bool" where
  "isWhiteSpace c =
     ((9 \<le> c \<and> c \<le> 13) \<or> c = 32 \<or> c = 160 \<or> c = 5760 \<or> (8192 \<le> c \<and> c \<le> 8202)
      \<or> c = 8232 \<or> c = 8233 \<or> c = 8239 \<or> c = 8287 \<or> c = 12288 \<or> c = 65279)"

text \<open>The class \<open>[^\n\r]\<close>.\<close>

definition notLineBreak :: "nat \<Rightarrow> bool" where
  "notLineBreak c = (c \<noteq> 10 \<and> c \<noteq> 13)"

definition trim :: "jsstring \<Rightarrow> jsstring" where
  "trim s = rev (dropWhile isWhiteSpace (rev (dropWhile isWhiteSpace s)))"

definition startsWith :: "jsstring \<Rightarrow> jsstring \<Rightarrow> bool" where
  "startsWith s p = (take (length p) s = p)"

text \<open>
  \<open>toLowerCase\<close> on the letters A to Z. The program only compares the lowered text with
  \<open>company\<close>; outside A to Z the only code units whose lower case contains an ASCII letter
  are U+0130 (giving i) and U+212A (giving k), and neither letter occurs in that word, so
  the comparison is the same as with the full Unicode mapping.
\<close>

definition toLowerCase :: "jsstring \<Rightarrow> jsstring" where
  "toLowerCase s = map (\<lambda>c. if 65 \<le> c \<and> c \<le> 90 then c + 32 else c) s"

text \<open>\<open>Array.prototype.join\<close> on strings.\<close>

fun join :: "jsstring \<Rightarrow> jsstring list \<Rightarrow> jsstring" where
  "join sep [] = []"
| "join sep [x] = x"
| "join sep (x # y # ys) = x @ sep @ join sep (y # ys)"

text \<open>
  A value of type \<open>string | undefined\<close> is a \<open>jsstring option\<close>. It is falsy when it is
  undefined or the empty string.
\<close>

definition truthy :: "jsstring option \<Rightarrow> bool" where
  "truthy v = (case v of None \<Rightarrow> False | Some s \<Rightarrow> s \<noteq> [])"

text \<open>\<open>a || b\<close> with \<open>b\<close> possibly undefined, and \<open>a || 'literal'\<close>.\<close>

definition orUndef :: "jsstring option \<Rightarrow> jsstring option \<Rightarrow> jsstring option" where
  "orUndef a b = (if truthy a then a else b)"

definition orElse :: "jsstring option \<Rightarrow> jsstring \<Rightarrow> jsstring" where
  "orElse a d = (case a of None \<Rightarrow> d | Some s \<Rightarrow> if s \<noteq> [] then s else d)"

subsection \<open>Numbers\<close>

text \<open>
  A JavaScript number is NaN, an infinity or a finite value. Finite arithmetic is exact
  here (rationals): the rounding and the overflow of binary64 are not modelled, and
  \<open>-0\<close> is \<open>0\<close>. The special values follow IEEE 754.
\<close>

datatype number = NaN | PInf | NInf | Fin rat

fun js_mul :: "number \<Rightarrow> number \<Rightarrow> number" where
  "js_mul NaN _ = NaN"
| "js_mul _ NaN = NaN"
| "js_mul (Fin a) (Fin b) = Fin (a * b)"
| "js_mul (Fin a) PInf = (if a = 0 then NaN else if 0 < a then PInf else NInf)"
| "js_mul (Fin a) NInf = (if a = 0 then NaN else if 0 < a then NInf else PInf)"
| "js_mul PInf (Fin b) = (if b = 0 then NaN else if 0 < b then PInf else NInf)"
| "js_mul NInf (Fin b) = (if b = 0 then NaN else if 0 < b then NInf else PInf)"
| "js_mul PInf PInf = PInf"
| "js_mul NInf NInf = PInf"
| "js_mul PInf NInf = NInf"
| "js_mul NInf PInf = NInf"

fun js_add :: "number \<Rightarrow> number \<Rightarrow> number" where
  "js_add NaN _ = NaN"
| "js_add _ NaN = NaN"
| "js_add (Fin a) (Fin b) = Fin (a + b)"
| "js_add PInf NInf = NaN"
| "js_add NInf PInf = NaN"
| "js_add PInf _ = PInf"
| "js_add NInf _ = NInf"
| "js_add (Fin a) PInf = PInf"
| "js_add (Fin a) NInf = NInf"

text \<open>The comparison \<open>a < b\<close>: false as soon as one side is NaN.\<close>

fun js_lt :: "number \<Rightarrow> number \<Rightarrow> bool" where
  "js_lt NaN _ = False"
| "js_lt _ NaN = False"
| "js_lt (Fin a) (Fin b) = (a < b)"
| "js_lt NInf NInf = False"
| "js_lt NInf _ = True"
| "js_lt PInf _ = False"
| "js_lt (Fin a) PInf = True"
| "js_lt (Fin a) NInf = False"

definition digitsVal :: "jsstring \<Rightarrow> nat" where
  "digitsVal ds = foldl (\<lambda>a d. 10 * a + (d - 48)) 0 ds"

text \<open>
  \<open>parseInt(s, 10)\<close>: leading white space is skipped, then an optional sign, then the
  longest run of decimal digits; NaN when that run is empty.
\<close>

definition parseInt10 :: "jsstring \<Rightarrow> number" where
  "parseInt10 s =
     (let t = dropWhile isWhiteSpace s;
          neg = startsWith t (js ''-'');
          u = (if neg \<or> startsWith t (js ''+'') then drop 1 t else t);
          ds = takeWhile isDigit u
      in if ds = [] then NaN
         else Fin ((if neg then - 1 else 1) * of_nat (digitsVal ds)))"

text \<open>
  The exponent part of a decimal literal: \<open>e\<close> or \<open>E\<close>, an optional sign and at least
  one digit; anything else is no exponent.
\<close>

definition exponentPart :: "jsstring \<Rightarrow> int" where
  "exponentPart r =
     (if startsWith r (js ''e'') \<or> startsWith r (js ''E'') then
        (let r1 = drop 1 r;
             neg = startsWith r1 (js ''-'');
             r2 = (if neg \<or> startsWith r1 (js ''+'') then drop 1 r1 else r1);
             ds = takeWhile isDigit r2
         in if ds = [] then 0 else (if neg then - int (digitsVal ds) else int (digitsVal ds)))
      else 0)"

text \<open>
  \<open>parseFloat(s)\<close>: leading white space is skipped, then the longest prefix that is a
  decimal literal (sign, \<open>Infinity\<close> or digits with an optional fraction and exponent) is
  read; NaN when there is none.
\<close>

definition parseFloat :: "jsstring \<Rightarrow> number" where
  "parseFloat s =
     (let t = dropWhile isWhiteSpace s;
          neg = startsWith t (js ''-'');
          u = (if neg \<or> startsWith t (js ''+'') then drop 1 t else t)
      in if startsWith u (js ''Infinity'') then (if neg then NInf else PInf)
         else
           (let ip = takeWhile isDigit u;
                r1 = dropWhile isDigit u;
                dot = startsWith r1 (js ''.'');
                fp = (if dot then takeWhile isDigit (drop 1 r1) else []);
                r2 = (if dot then dropWhile isDigit (drop 1 r1) else r1)
            in if ip = [] \<and> fp = [] then NaN
               else
                 (let e = exponentPart r2;
                      m = (of_nat (digitsVal (ip @ fp)) :: rat) / 10 ^ length fp;
                      v = (if 0 \<le> e then m * 10 ^ nat e else m / 10 ^ nat (- e))
                  in Fin (if neg then - v else v))))"

section \<open>Field normalizers\<close>

text \<open>
  A parsed CSV record is an object keyed by header: here the list of its properties, in
  the order \<open>Object.keys\<close> gives them. Reading a header that is absent gives undefined.
\<close>

type_synonym ShopifyOrderRow = "(jsstring \<times> jsstring) list"

definition col :: "ShopifyOrderRow \<Rightarrow> string \<Rightarrow> jsstring option" where
  "col row k = map_of row (js k)"

text \<open>\<open>cleanPhone\<close>: its argument may be undefined at run time.\<close>

definition cleanPhone :: "jsstring option \<Rightarrow> jsstring" where
  "cleanPhone phone =
     (case phone of
        None \<Rightarrow> []
      | Some ph \<Rightarrow>
          if ph = [] then []
          else
            (let p = filter isDigit ph;
                 p = (if startsWith p (js ''886'') then js ''0'' @ drop 3 p else p);
                 p = (if startsWith p (js ''9'') \<and> length p = 9 then js ''0'' @ p else p)
             in p))"

definition formatAddress :: "ShopifyOrderRow \<Rightarrow> jsstring" where
  "formatAddress row =
     (let shippingStreet = col row ''Shipping Street'';
          billingStreet = col row ''Billing Street''
      in case shippingStreet of
           Some s \<Rightarrow> if s \<noteq> [] then trim s else orElse billingStreet []
         | None \<Rightarrow> orElse billingStreet [])"

subsection \<open>Invoice metadata\<close>

text \<open>
  The three regular expressions of \<open>parseInvoiceInfo\<close> have the shape
  \<open>key\s*(C+)\<close> for a literal key and a character class C. \<open>reTail\<close> matches
  \<open>\s*(C+)\<close> at the head of a string as a backtracking matcher does: the greedy
  \<open>\s*\<close> takes a white space unit first and gives it back when the rest fails.
  \<open>reSearch\<close> is \<open>String.prototype.match\<close>: the leftmost position where the whole
  expression matches, returning the captured group.
\<close>

definition rePlus :: "(nat \<Rightarrow> bool) \<Rightarrow> jsstring \<Rightarrow> jsstring option" where
  "rePlus C s = (let v = takeWhile C s in if v = [] then None else Some v)"

fun reTail :: "(nat \<Rightarrow> bool) \<Rightarrow> jsstring \<Rightarrow> jsstring option" where
  "reTail C [] = None"
| "reTail C (c # cs) =
     (if isWhiteSpace c then
        (case reTail C cs of Some v \<Rightarrow> Some v | None \<Rightarrow> rePlus C (c # cs))
      else rePlus C (c # cs))"

definition reAt :: "jsstring \<Rightarrow> (nat \<Rightarrow> bool) \<Rightarrow> jsstring \<Rightarrow> jsstring option" where
  "reAt key C s = (if startsWith s key then reTail C (drop (length key) s) else None)"

fun reSearch :: "jsstring \<Rightarrow> (nat \<Rightarrow> bool) \<Rightarrow> jsstring \<Rightarrow> jsstring option" where
  "reSearch key C [] = reAt key C []"
| "reSearch key C (c # cs) =
     (case reAt key C (c # cs) of Some v \<Rightarrow> Some v | None \<Rightarrow> reSearch key C cs)"

text \<open>The keys, with their CJK labels as code units.\<close>

definition invoiceTypeKey :: jsstring where
  "invoiceTypeKey = [0x767C, 0x7968, 0x7A2E, 0x985E] @ js ''(InvoiceType):''"

definition companyIdKey :: jsstring where
  "companyIdKey = [0x7D71, 0x4E00, 0x7DE8, 0x865F] @ js ''(CompanyId):''"

definition companyNameKey :: jsstring where
  "companyNameKey = [0x516C, 0x53F8, 0x540D, 0x7A31] @ js ''(CompanyName):''"

text \<open>The result object \<open>{ taxId, companyName }\<close> is the pair of its two fields.\<close>

definition parseInvoiceInfo :: "jsstring option \<Rightarrow> jsstring \<times> jsstring" where
  "parseInvoiceInfo attrs =
     (case attrs of
        None \<Rightarrow> ([], [])
      | Some a \<Rightarrow>
          if a = [] then ([], [])
          else
            (let typeMatch = reSearch invoiceTypeKey notLineBreak a;
                 invoiceType = (case typeMatch of Some v \<Rightarrow> toLowerCase (trim v) | None \<Rightarrow> [])
             in if invoiceType \<noteq> js ''company'' then ([], [])
                else
                  (let taxIdMatch = reSearch companyIdKey isDigit a;
                       nameMatch = reSearch companyNameKey notLineBreak a
                   in (case taxIdMatch of Some v \<Rightarrow> trim v | None \<Rightarrow> [],
                       case nameMatch of Some v \<Rightarrow> trim v | None \<Rightarrow> []))))"

section \<open>Order aggregation and the business rule\<close>

record Customer =
  name :: jsstring
  phone :: jsstring
  address :: jsstring
  city :: jsstring
  zip' :: jsstring

record ProcessedItem =
  sku :: jsstring
  name :: jsstring
  quantity :: number
  price :: number
  isSystemAddon :: "bool option"

text \<open>
  Fields that can hold undefined at run time (an optional field, or a header missing from
  the record) are options. The fields \<open>zip\<close> and \<open>total\<close> carry a prime, their
  names being constants of HOL.
\<close>

record ProcessedOrder =
  orderId :: jsstring
  shopifyId :: jsstring
  paymentRef :: jsstring
  carrierId :: jsstring
  taxId :: "jsstring option"
  companyName :: "jsstring option"
  email :: "jsstring option"
  createdAt :: "jsstring option"
  shippingMethod :: jsstring
  customer :: Customer
  items :: "ProcessedItem list"
  subtotal :: number
  originalSubtotal :: number
  shippingFee :: number
  total' :: number
  warnings :: "jsstring list"

text \<open>The order object created at the first row of an order identifier.\<close>

definition newOrder :: "ShopifyOrderRow \<Rightarrow> jsstring \<Rightarrow> ProcessedOrder" where
  "newOrder row oid =
     (let shippingName =
            orElse (orUndef (col row ''Shipping Name'') (col row ''Billing Name'')) (js ''Unknown'');
          shippingPhone = cleanPhone (orUndef (col row ''Shipping Phone'') (col row ''Billing Phone''));
          shippingMethod' = orElse (col row ''Shipping Method'') [];
          paymentRef' =
            orElse (orUndef (col row ''Payment References'') (col row ''Payment Reference'')) [];
          carrierId' = orElse (col row ''Email'') [];
          info = parseInvoiceInfo (col row ''Note Attributes'')
      in \<lparr>orderId = oid,
          shopifyId = orElse (col row ''Id'') [],
          paymentRef = paymentRef',
          carrierId = carrierId',
          taxId = Some (fst info),
          companyName = Some (snd info),
          email = col row ''Email'',
          createdAt = col row ''Created at'',
          shippingMethod = shippingMethod',
          customer =
            \<lparr>Customer.name = shippingName,
             phone = shippingPhone,
             address = formatAddress row,
             city = orElse (orUndef (col row ''Shipping City'') (col row ''Billing City'')) [],
             zip' = orElse (orUndef (col row ''Shipping Zip'') (col row ''Billing Zip'')) []\<rparr>,
          items = [],
          subtotal = Fin 0,
          originalSubtotal = parseFloat (orElse (col row ''Subtotal'') (js ''0'')),
          shippingFee = parseFloat (orElse (col row ''Shipping'') (js ''0'')),
          total' = parseFloat (orElse (col row ''Total'') (js ''0'')),
          warnings = []\<rparr>)"

text \<open>
  The line item built from a row. It is pushed only when the row has a line-item name, so
  that name is not empty where the item is used.
\<close>

definition lineItem :: "ShopifyOrderRow \<Rightarrow> ProcessedItem" where
  "lineItem row =
     (let qty = parseInt10 (orElse (col row ''Lineitem quantity'') (js ''0''));
          price' = parseFloat (orElse (col row ''Lineitem price'') (js ''0''));
          name' = col row ''Lineitem name'';
          sku' = col row ''Lineitem sku''
      in \<lparr>sku = orElse sku' [],
          name = orElse name' [],
          quantity = qty,
          price = price',
          isSystemAddon = None\<rparr>)"

text \<open>
  \<open>orderMap\<close> is a JavaScript Map: it keeps its keys in insertion order, so it is an
  association list that grows at the end. An order object is shared between the map and
  the code that pushes an item, so the push is an update of the entry.
\<close>

type_synonym orderMap = "(jsstring \<times> ProcessedOrder) list"

definition mapHas :: "orderMap \<Rightarrow> jsstring \<Rightarrow> bool" where
  "mapHas m k = (map_of m k \<noteq> None)"

definition pushItem :: "orderMap \<Rightarrow> jsstring \<Rightarrow> ProcessedItem \<Rightarrow> orderMap" where
  "pushItem m k it =
     map (\<lambda>(k', ord). if k' = k then (k', ord\<lparr>items := items ord @ [it]\<rparr>) else (k', ord)) m"

text \<open>The callback of \<open>rows.forEach\<close>.\<close>

definition addRow :: "orderMap \<Rightarrow> ShopifyOrderRow \<Rightarrow> orderMap" where
  "addRow m row =
     (case col row ''Name'' of
        None \<Rightarrow> m
      | Some oid \<Rightarrow>
          if oid = [] then m
          else
            (let m1 = (if mapHas m oid then m else m @ [(oid, newOrder row oid)])
             in if truthy (col row ''Lineitem name'') then pushItem m1 oid (lineItem row)
                else m1))"

definition calculatedSubtotal :: "ProcessedItem list \<Rightarrow> number" where
  "calculatedSubtotal its =
     foldl (\<lambda>sum item. js_add sum (js_mul (price item) (quantity item))) (Fin 0) its"

definition shippingAddon :: ProcessedItem where
  "shippingAddon =
     \<lparr>sku = js ''Z90001'', name = [0x904B, 0x8CBB], quantity = Fin 1, price = Fin 120,
      isSystemAddon = Some True\<rparr>"

text \<open>The callback of \<open>orderMap.forEach\<close>: the subtotal, then the shipping threshold.\<close>

definition finalizeOrder :: "ProcessedOrder \<Rightarrow> ProcessedOrder" where
  "finalizeOrder ord =
     (let ord1 = ord\<lparr>subtotal := calculatedSubtotal (items ord)\<rparr>
      in if js_lt (subtotal ord1) (Fin 1000) then ord1\<lparr>items := items ord1 @ [shippingAddon]\<rparr>
         else ord1)"

text \<open>
  The two passes of \<open>processOrders\<close>: \<open>rows.forEach\<close> fills the map, then
  \<open>orderMap.forEach\<close> finalizes each order, in insertion order, and pushes it to the
  result.
\<close>

definition aggregate :: "ShopifyOrderRow list \<Rightarrow> orderMap" where
  "aggregate rows = foldl addRow [] rows"

definition processOrders :: "ShopifyOrderRow list \<Rightarrow> ProcessedOrder list" where
  "processOrders rows = map (\<lambda>(k, ord). finalizeOrder ord) (aggregate rows)"

section \<open>Export projection\<close>

text \<open>A cell of an export row is a string or a number; a field that was undefined stays so.\<close>

datatype cell = Str jsstring | Num number | Undefined

type_synonym MovaExcelRow = "cell list"

definition optCell :: "jsstring option \<Rightarrow> cell" where
  "optCell v = (case v of None \<Rightarrow> Undefined | Some s \<Rightarrow> Str s)"

definition MOVA_HEADERS :: "jsstring list" where
  "MOVA_HEADERS =
     [
      [0x901A, 0x8DEF, 0x8A02, 0x55AE, 0x7DE8, 0x865F],
      [0x6536, 0x8CA8, 0x4EBA],
      [0x806F, 0x7D61, 0x96FB, 0x8A71],
      [0x9001, 0x8CA8, 0x5730, 0x5740],
      [0x5099, 0x8A3B],
      [0x54C1, 0x865F],
      [0x91D1, 0x984D, 0x5408, 0x8A08],
      [0x6578, 0x91CF],
      [0x55AE, 0x50F9],
      [0x51FA, 0x8CA8, 0x5009, 0x5EAB],
      [0x7D71, 0x4E00, 0x7DE8, 0x865F],
      [0x4EE3, 0x6536, 0x8CA8, 0x6B3E],
      [0x696D, 0x52D9, 0x54E1],
      [0x4F86, 0x56DE, 0x4EF6],
      [0x9644, 0x4EF6],
      [0x904B, 0x8F38, 0x65B9, 0x5F0F],
      [0x6307, 0x5B9A, 0x6548, 0x671F],
      [0x5BA2, 0x6236, 0x54C1, 0x865F],
      js ''ERP'' @ [0x5BA2, 0x6236, 0x4EE3, 0x865F],
      [0x662F, 0x5426, 0x6307, 0x5B9A, 0x5009, 0x5EAB],
      [0x767C, 0x7968, 0x865F, 0x78BC],
      [0x8F09, 0x5177, 0x865F, 0x78BC],
      [0x767C, 0x7968, 0x958B, 0x7ACB, 0x65E5, 0x671F],
      [0x767C, 0x7968, 0x958B, 0x7ACB, 0x6642, 0x9593],
      [0x7D71, 0x4E00, 0x7DE8, 0x865F] @ js ''('' @ [0x767C, 0x7968] @ js '')'',
      [0x7D71, 0x4E00, 0x7DE8, 0x865F, 0x62AC, 0x982D],
      [0x901A, 0x8DEF, 0x8A02, 0x55AE, 0x5E8F, 0x865F],
      [0x7DB2, 0x7AD9, 0x8A02, 0x55AE, 0x7DE8, 0x865F],
      js ''Email''
     ]"

text \<open>
  The row of one item: an array of 29 empty strings, then the assignments of the source
  in their order.
\<close>

definition movaRow :: "ProcessedOrder \<Rightarrow> ProcessedItem \<Rightarrow> MovaExcelRow" where
  "movaRow ord item =
     (replicate 29 (Str []))
       [0 := Str (if paymentRef ord \<noteq> [] then paymentRef ord else orderId ord),
        1 := Str (Customer.name (customer ord)),
        2 := Str (phone (customer ord)),
        3 := Str (address (customer ord)),
        4 := Str [],
        5 := Str (sku item),
        6 := Num (js_mul (price item) (quantity item)),
        7 := Num (quantity item),
        8 := Num (price item),
        9 := Str (js ''XF1400''),
        10 := Str [],
        11 := Str [],
        12 := Str (js ''6301''),
        13 := Str (js ''N''),
        14 := Str (js ''N''),
        15 := Str (js ''2''),
        16 := Str [],
        17 := Str (sku item),
        18 := Str (js ''F91000000''),
        19 := Str (js ''N''),
        20 := Str [],
        21 := Str (carrierId ord),
        22 := Str [],
        23 := Str [],
        24 := Str (orElse (taxId ord) []),
        25 := Str (orElse (companyName ord) []),
        26 := Str (orderId ord),
        27 := Str (shopifyId ord),
        28 := optCell (email ord)]"

definition convertToMovaRows :: "ProcessedOrder list \<Rightarrow> MovaExcelRow list" where
  "convertToMovaRows orders =
     foldl (\<lambda>exportRows ord.
              foldl (\<lambda>exportRows item. exportRows @ [movaRow ord item]) exportRows (items ord))
       [map Str MOVA_HEADERS] orders"

section \<open>Input boundary\<close>

text \<open>
  The CSV tokenizer is an external library: it ends by calling \<open>complete\<close> with the parsed
  records or \<open>error\<close> with an error. A rejected promise carries an \<open>Error\<close> with its
  message.
\<close>

datatype jserror = Error jsstring

datatype papaResult = Complete "ShopifyOrderRow list" | Failed jserror

definition emptyFileMessage :: jsstring where
  "emptyFileMessage = [0x6A94, 0x6848, 0x5167, 0x5BB9, 0x70BA, 0x7A7A]"

definition missingNameMessage :: jsstring where
  "missingNameMessage =
     js ''CSV '' @ [0x683C, 0x5F0F, 0x932F, 0x8AA4] @ js '': '' @ [0x627E, 0x4E0D, 0x5230] @ js '' '' @ [0x0022] @ js ''Name'' @ [0x0022] @ js '' '' @ [0x6B04, 0x4F4D, 0x3002, 0x8ACB, 0x78BA, 0x8A8D, 0x4E0A, 0x50B3, 0x7684, 0x662F] @ js '' Shopify '' @ [0x8A02, 0x55AE, 0x532F, 0x51FA, 0x6A94, 0x3002, 0x000A, 0x5075, 0x6E2C, 0x5230, 0x7684, 0x6B04, 0x4F4D] @ js '': ''"

definition parseShopifyCSV :: "papaResult \<Rightarrow> jserror + ShopifyOrderRow list" where
  "parseShopifyCSV res =
     (case res of
        Failed e \<Rightarrow> Inl e
      | Complete rows \<Rightarrow>
          (case rows of
             [] \<Rightarrow> Inl (Error emptyFileMessage)
           | r0 # _ \<Rightarrow>
               if col r0 ''Name'' = None then
                 (let detectedKeys = join (js '', '') (map fst r0)
                  in Inl (Error (missingNameMessage @ detectedKeys)))
               else Inr rows))"


section \<open>Notions of the specification\<close>

text \<open>
  The phone rule as the specification words it: strip the non-digits, then either replace
  a leading 886 by 0, or else put a 0 before nine digits that begin with 9.
\<close>

definition phoneNormalized :: "jsstring \<Rightarrow> jsstring" where
  "phoneNormalized s =
     (let d = filter isDigit s
      in if startsWith d (js ''886'') then js ''0'' @ drop 3 d
         else if length d = 9 \<and> startsWith d (js ''9'') then js ''0'' @ d
         else d)"



text \<open>
  The order identifier a row belongs to: none when the \<open>Name\<close> field is missing or
  empty, and such a row is skipped.
\<close>

definition orderKey :: "ShopifyOrderRow \<Rightarrow> jsstring option" where
  "orderKey row = (case col row ''Name'' of None \<Rightarrow> None | Some k \<Rightarrow> if k = [] then None else Some k)"

primrec orderKeys :: "ShopifyOrderRow list \<Rightarrow> jsstring list" where
  "orderKeys [] = []"
| "orderKeys (r # rs) = (case orderKey r of None \<Rightarrow> orderKeys rs | Some k \<Rightarrow> k # orderKeys rs)"

text \<open>The distinct elements of a list, in the order of their first occurrence.\<close>

primrec firstSeen :: "'a list \<Rightarrow> 'a list" where
  "firstSeen [] = []"
| "firstSeen (x # xs) = x # removeAll x (firstSeen xs)"

text \<open>
  The rows of an order identifier, and those of them that carry a line item, both in
  input order.
\<close>

definition rowsOf :: "jsstring \<Rightarrow> ShopifyOrderRow list \<Rightarrow> ShopifyOrderRow list" where
  "rowsOf k rows = filter (\<lambda>r. orderKey r = Some k) rows"

definition itemRows :: "jsstring \<Rightarrow> ShopifyOrderRow list \<Rightarrow> ShopifyOrderRow list" where
  "itemRows k rows = filter (\<lambda>r. truthy (col r ''Lineitem name'')) (rowsOf k rows)"

text \<open>
  The order after the aggregation pass: created from the first row of its identifier, with
  one item for each of its rows that has a line-item name.
\<close>

definition aggregated :: "ShopifyOrderRow list \<Rightarrow> jsstring \<Rightarrow> ProcessedOrder" where
  "aggregated rows k =
     (newOrder (case rowsOf k rows of [] \<Rightarrow> [] | r # _ \<Rightarrow> r) k)\<lparr>items := map lineItem (itemRows k rows)\<rparr>"

text \<open>A system addon is an item whose \<open>isSystemAddon\<close> flag is true.\<close>

definition isAddon :: "ProcessedItem \<Rightarrow> bool" where
  "isAddon it = (isSystemAddon it = Some True)"





text \<open>
  Example input: orders A, B and C interleaved, one row with an empty identifier and one
  with no \<open>Name\<close> field; order C has no line item; one row of B has no quantity.
\<close>

definition exampleRows :: "ShopifyOrderRow list" where
  "exampleRows =
     [[(js ''Name'', js ''A''), (js ''Subtotal'', js ''5000''), (js ''Lineitem name'', js ''pen''),
       (js ''Lineitem quantity'', js ''1''), (js ''Lineitem price'', js ''999'')],
      [(js ''Name'', js ''B''), (js ''Lineitem name'', js ''ink''),
       (js ''Lineitem quantity'', js ''2''), (js ''Lineitem price'', js ''500.00'')],
      [(js ''Name'', []), (js ''Lineitem name'', js ''ghost''),
       (js ''Lineitem quantity'', js ''1''), (js ''Lineitem price'', js ''1'')],
      [(js ''Name'', js ''C''), (js ''Lineitem name'', [])],
      [(js ''Name'', js ''B''), (js ''Lineitem name'', js ''cap''),
       (js ''Lineitem sku'', js ''K7''), (js ''Lineitem price'', js ''200'')],
      [(js ''Id'', js ''7''), (js ''Lineitem name'', js ''lost'')]]"


section \<open>Properties\<close>

lemma js_simps: "js [] = []" "js (c # cs) = of_char c # js cs"
  by (simp_all add: js_def)

subsection \<open>Phone normalizer\<close>

text \<open>
  Claim C8. For every input string the phone normalizer returns the digits of the input,
  with a leading 886 replaced by 0, or else with a 0 put before nine digits beginning with
  9; an undefined or empty input gives the empty string; \<open>+886912345678\<close> and
  \<open>912345678\<close> both give \<open>0912345678\<close>, which is itself unchanged.
\<close>

theorem cleanPhone_normalizes:
  "cleanPhone (Some s) = phoneNormalized s \<and> cleanPhone None = [] \<and> cleanPhone (Some []) = []
   \<and> cleanPhone (Some (js ''+886912345678'')) = js ''0912345678''
   \<and> cleanPhone (Some (js ''912345678'')) = js ''0912345678''
   \<and> cleanPhone (Some (js ''0912345678'')) = js ''0912345678''"
proof -
  have gen: "cleanPhone (Some t) = phoneNormalized t" for t
    by (auto simp: cleanPhone_def phoneNormalized_def Let_def startsWith_def js_simps)
  have ex1: "phoneNormalized (js ''+886912345678'') = js ''0912345678''"
    by (simp add: phoneNormalized_def startsWith_def js_simps isDigit_def)
  have ex2: "phoneNormalized (js ''912345678'') = js ''0912345678''"
    by (simp add: phoneNormalized_def startsWith_def js_simps isDigit_def)
  have ex3: "phoneNormalized (js ''0912345678'') = js ''0912345678''"
    by (simp add: phoneNormalized_def startsWith_def js_simps isDigit_def)
  show ?thesis
    by (simp only: gen ex1 ex2 ex3)
      (simp add: cleanPhone_def phoneNormalized_def startsWith_def js_simps)
qed

theorem cleanPhone_normalizes_witness:
  "cleanPhone (Some (js ''(02) 886-9'')) = js ''028869''"
  using cleanPhone_normalizes [of "js ''(02) 886-9''"]
  by (simp add: phoneNormalized_def startsWith_def js_simps isDigit_def)

subsection \<open>Address formatter\<close>

text \<open>
  Claim C9. The address is the shipping street, trimmed, when that field is present and
  not empty; otherwise the billing street exactly as it is, when present; otherwise the
  empty string. Only the shipping branch trims.
\<close>

theorem formatAddress_prefers_shipping:
  "(\<forall>s. col row ''Shipping Street'' = Some s \<and> s \<noteq> [] \<longrightarrow> formatAddress row = trim s)
   \<and> (\<not> truthy (col row ''Shipping Street'') \<longrightarrow>
        (\<forall>b. col row ''Billing Street'' = Some b \<longrightarrow> formatAddress row = b)
        \<and> (col row ''Billing Street'' = None \<longrightarrow> formatAddress row = []))"
  by (auto simp: formatAddress_def truthy_def orElse_def Let_def split: option.splits)

theorem formatAddress_prefers_shipping_witness:
  "formatAddress [(js ''Shipping Street'', js '' 1 Main St ''), (js ''Billing Street'', js '' B '')]
     = js ''1 Main St''
   \<and> formatAddress [(js ''Shipping Street'', []), (js ''Billing Street'', js '' B '')] = js '' B ''
   \<and> formatAddress [(js ''Shipping City'', js ''X'')] = []"
proof -
  let ?r1 = "[(js ''Shipping Street'', js '' 1 Main St ''), (js ''Billing Street'', js '' B '')]"
  let ?r2 = "[(js ''Shipping Street'', []), (js ''Billing Street'', js '' B '')]"
  let ?r3 = "[(js ''Shipping City'', js ''X'')]"
  show ?thesis
    using formatAddress_prefers_shipping [of ?r1] formatAddress_prefers_shipping [of ?r2]
      formatAddress_prefers_shipping [of ?r3]
    by (simp add: col_def truthy_def js_simps trim_def isWhiteSpace_def)
qed

subsection \<open>Export projection\<close>

lemma foldl_push_map: "foldl (\<lambda>acc x. acc @ [f x]) acc xs = acc @ map f xs"
  by (induction xs arbitrary: acc) simp_all

lemma foldl_push_concat:
  "foldl (\<lambda>acc x. foldl (\<lambda>acc y. acc @ [f x y]) acc (g x)) acc xs
     = acc @ concat (map (\<lambda>x. map (f x) (g x)) xs)"
  by (induction xs arbitrary: acc) (simp_all add: foldl_push_map)

lemma movaRow_cells:
  "movaRow ord item =
     [Str (if paymentRef ord \<noteq> [] then paymentRef ord else orderId ord),
      Str (Customer.name (customer ord)), Str (phone (customer ord)), Str (address (customer ord)),
      Str [], Str (sku item), Num (js_mul (price item) (quantity item)), Num (quantity item),
      Num (price item), Str (js ''XF1400''), Str [], Str [], Str (js ''6301''), Str (js ''N''),
      Str (js ''N''), Str (js ''2''), Str [], Str (sku item), Str (js ''F91000000''),
      Str (js ''N''), Str [], Str (carrierId ord), Str [], Str [], Str (orElse (taxId ord) []),
      Str (orElse (companyName ord) []), Str (orderId ord), Str (shopifyId ord),
      optCell (email ord)]"
  unfolding movaRow_def by (simp add: eval_nat_numeral)

lemma convertToMovaRows_concat:
  "convertToMovaRows orders
     = map Str MOVA_HEADERS # concat (map (\<lambda>ord. map (movaRow ord) (items ord)) orders)"
  unfolding convertToMovaRows_def by (simp add: foldl_push_concat)



subsection \<open>Aggregation\<close>

lemma set_firstSeen [simp]: "set (firstSeen xs) = set xs"
  by (induction xs) auto

lemma distinct_firstSeen [simp]: "distinct (firstSeen xs)"
  by (induction xs) (auto simp: distinct_removeAll)

lemma firstSeen_snoc:
  "firstSeen (xs @ [x]) = (if x \<in> set xs then firstSeen xs else firstSeen xs @ [x])"
  by (induction xs) auto

lemma orderKeys_append: "orderKeys (xs @ ys) = orderKeys xs @ orderKeys ys"
  by (induction xs) (auto split: option.splits)

lemma set_orderKeys: "k \<in> set (orderKeys rows) \<longleftrightarrow> rowsOf k rows \<noteq> []"
  by (induction rows) (auto simp: rowsOf_def split: option.splits)

lemma map_of_keyed: "map_of (map (\<lambda>k. (k, f k)) ks) k = (if k \<in> set ks then Some (f k) else None)"
  by (induction ks) auto

lemma mapHas_keyed: "mapHas (map (\<lambda>k. (k, f k)) ks) k = (k \<in> set ks)"
  by (simp add: mapHas_def map_of_keyed)

lemma pushItem_keyed:
  "pushItem (map (\<lambda>k. (k, f k)) ks) k it
     = map (\<lambda>k'. (k', if k' = k then (f k')\<lparr>items := items (f k') @ [it]\<rparr> else f k')) ks"
  by (simp add: pushItem_def comp_def)

lemma addRow_skip: "orderKey r = None \<Longrightarrow> addRow m r = m"
  by (auto simp: addRow_def orderKey_def split: option.splits if_splits)

lemma addRow_key:
  "orderKey r = Some k \<Longrightarrow>
   addRow m r =
     (let m1 = (if mapHas m k then m else m @ [(k, newOrder r k)])
      in if truthy (col r ''Lineitem name'') then pushItem m1 k (lineItem r) else m1)"
  by (auto simp: addRow_def orderKey_def split: option.splits if_splits)

lemma aggregated_skip: "orderKey r = None \<Longrightarrow> aggregated (rows @ [r]) k = aggregated rows k"
  by (simp add: aggregated_def rowsOf_def itemRows_def)

lemma aggregated_other:
  "orderKey r = Some k' \<Longrightarrow> k \<noteq> k' \<Longrightarrow> aggregated (rows @ [r]) k = aggregated rows k"
  by (simp add: aggregated_def rowsOf_def itemRows_def)

lemma aggregated_same_old:
  "orderKey r = Some k \<Longrightarrow> rowsOf k rows \<noteq> [] \<Longrightarrow>
   aggregated (rows @ [r]) k =
     (if truthy (col r ''Lineitem name'')
      then (aggregated rows k)\<lparr>items := items (aggregated rows k) @ [lineItem r]\<rparr>
      else aggregated rows k)"
  by (cases "rowsOf k rows") (auto simp: aggregated_def rowsOf_def itemRows_def)

lemma aggregated_same_new:
  "orderKey r = Some k \<Longrightarrow> rowsOf k rows = [] \<Longrightarrow>
   aggregated (rows @ [r]) k =
     (if truthy (col r ''Lineitem name'')
      then (newOrder r k)\<lparr>items := items (newOrder r k) @ [lineItem r]\<rparr>
      else newOrder r k)"
  by (auto simp: aggregated_def rowsOf_def itemRows_def newOrder_def Let_def)

lemma aggregate_snoc: "aggregate (rows @ [r]) = addRow (aggregate rows) r"
  by (simp add: aggregate_def)

lemma aggregate_keyed:
  "aggregate rows = map (\<lambda>k. (k, aggregated rows k)) (firstSeen (orderKeys rows))"
proof (induction rows rule: rev_induct)
  case Nil
  show ?case by (simp add: aggregate_def)
next
  case (snoc r rows)
  let ?ks = "firstSeen (orderKeys rows)"
  show ?case
  proof (cases "orderKey r")
    case None
    then show ?thesis
      by (simp add: aggregate_snoc snoc.IH addRow_skip orderKeys_append aggregated_skip)
  next
    case (Some k)
    have keys: "orderKeys (rows @ [r]) = orderKeys rows @ [k]"
      by (simp add: orderKeys_append Some)
    show ?thesis
    proof (cases "k \<in> set (orderKeys rows)")
      case True
      then have old: "rowsOf k rows \<noteq> []" by (simp add: set_orderKeys)
      have fs: "firstSeen (orderKeys (rows @ [r])) = ?ks"
        by (simp add: keys firstSeen_snoc True)
      have pt: "aggregated (rows @ [r]) k' =
          (if k' = k \<and> truthy (col r ''Lineitem name'')
           then (aggregated rows k')\<lparr>items := items (aggregated rows k') @ [lineItem r]\<rparr>
           else aggregated rows k')" for k'
        using aggregated_same_old [OF Some old] aggregated_other [OF Some, of k' rows]
        by (cases "k' = k") auto
      show ?thesis
        unfolding aggregate_snoc snoc.IH fs
        by (simp add: addRow_key [OF Some] mapHas_keyed True pushItem_keyed Let_def pt)
    next
      case False
      then have new: "rowsOf k rows = []" by (simp add: set_orderKeys)
      have fs: "firstSeen (orderKeys (rows @ [r])) = ?ks @ [k]"
        by (simp add: keys firstSeen_snoc False)
      have notin: "k \<notin> set ?ks" using False by simp
      have other: "map (\<lambda>k'. (k', aggregated (rows @ [r]) k')) ?ks
          = map (\<lambda>k'. (k', aggregated rows k')) ?ks"
      proof (rule map_cong [OF refl])
        fix k' assume "k' \<in> set ?ks"
        with notin have "k' \<noteq> k" by auto
        then show "(k', aggregated (rows @ [r]) k') = (k', aggregated rows k')"
          by (simp add: aggregated_other [OF Some])
      qed
      have push: "pushItem (map (\<lambda>k'. (k', aggregated rows k')) ?ks) k it
          = map (\<lambda>k'. (k', aggregated rows k')) ?ks" for it
        unfolding pushItem_keyed using notin by auto
      show ?thesis
        unfolding aggregate_snoc snoc.IH fs
        by (simp add: addRow_key [OF Some] mapHas_keyed False Let_def other
            aggregated_same_new [OF Some new] push pushItem_def[of "_ @ _"] )
    qed
  qed
qed

lemma processOrders_keyed:
  "processOrders rows = map (\<lambda>k. finalizeOrder (aggregated rows k)) (firstSeen (orderKeys rows))"
  by (simp add: processOrders_def aggregate_keyed comp_def)

lemma lineItem_not_addon [simp]: "\<not> isAddon (lineItem r)"
  by (simp add: isAddon_def lineItem_def Let_def)

lemma shippingAddon_isAddon [simp]: "isAddon shippingAddon"
  by (simp add: isAddon_def shippingAddon_def)

lemma items_finalizeOrder:
  "items (finalizeOrder ord) =
     items ord @ (if js_lt (calculatedSubtotal (items ord)) (Fin 1000) then [shippingAddon] else [])"
  by (simp add: finalizeOrder_def Let_def)

lemma subtotal_finalizeOrder: "subtotal (finalizeOrder ord) = calculatedSubtotal (items ord)"
  by (simp add: finalizeOrder_def Let_def)

lemma orderId_finalizeOrder: "orderId (finalizeOrder ord) = orderId ord"
  by (simp add: finalizeOrder_def Let_def)

lemma items_aggregated: "items (aggregated rows k) = map lineItem (itemRows k rows)"
  by (simp add: aggregated_def)

lemma orderId_aggregated: "orderId (aggregated rows k) = k"
  by (simp add: aggregated_def newOrder_def Let_def)

lemma filter_addon_lineItems [simp]: "filter isAddon (map lineItem rs) = []"
  by (induction rs) simp_all

lemma filter_real_lineItems [simp]:
  "filter (\<lambda>it. \<not> isAddon it) (map lineItem rs) = map lineItem rs"
  by (induction rs) simp_all



lemma processOrders_member:
  "ord \<in> set (processOrders rows) \<Longrightarrow>
   \<exists>k. k \<in> set (orderKeys rows) \<and> ord = finalizeOrder (aggregated rows k)"
  by (auto simp: processOrders_keyed)


lemmas eval_defs = col_def js_simps orderKey_def truthy_def orElse_def orUndef_def
  parseInt10_def parseFloat_def exponentPart_def startsWith_def digitsVal_def isDigit_def
  isWhiteSpace_def Let_def

lemma exampleRows_keys: "orderKeys exampleRows = [js ''A'', js ''B'', js ''C'', js ''B'']"
  by (simp add: exampleRows_def eval_defs)

lemma exampleRows_firstSeen: "firstSeen (orderKeys exampleRows) = [js ''A'', js ''B'', js ''C'']"
  by (simp add: exampleRows_keys js_simps)

lemma exampleRows_items:
  "map lineItem (itemRows (js ''A'') exampleRows)
     = [\<lparr>sku = [], name = js ''pen'', quantity = Fin 1, price = Fin 999, isSystemAddon = None\<rparr>]"
  "map lineItem (itemRows (js ''B'') exampleRows)
     = [\<lparr>sku = [], name = js ''ink'', quantity = Fin 2, price = Fin 500, isSystemAddon = None\<rparr>,
        \<lparr>sku = js ''K7'', name = js ''cap'', quantity = Fin 0, price = Fin 200,
         isSystemAddon = None\<rparr>]"
  "map lineItem (itemRows (js ''C'') exampleRows) = []"
  by (simp_all add: exampleRows_def itemRows_def rowsOf_def lineItem_def eval_defs)


lemma exampleRows_addons:
  "map (\<lambda>ord. filter isAddon (items ord)) (processOrders exampleRows)
      = [[shippingAddon], [], [shippingAddon]]"
  by (simp add: processOrders_keyed exampleRows_firstSeen items_finalizeOrder items_aggregated
      exampleRows_items calculatedSubtotal_def)
    (simp add: isAddon_def)


lemma orderKeys_filter: "orderKeys (filter (\<lambda>r. orderKey r \<noteq> None) rows) = orderKeys rows"
  by (induction rows) (auto split: option.splits)

lemma rowsOf_filter: "rowsOf k (filter (\<lambda>r. orderKey r \<noteq> None) rows) = rowsOf k rows"
  by (induction rows) (auto simp: rowsOf_def)

lemma processOrders_skips:
  "processOrders (filter (\<lambda>r. orderKey r \<noteq> None) rows) = processOrders rows"
  by (simp only: processOrders_keyed orderKeys_filter aggregated_def itemRows_def rowsOf_filter)

text \<open>
  Claim C6. The orders come out in the order in which their identifiers are first seen
  in the input; rows without an identifier, or with an empty one, change nothing; the
  items of an order are those of its rows that carry a line item, in input order,
  followed by its addon items, of which there is at most one.
\<close>

theorem processOrders_ordering:
  "map orderId (processOrders rows) = firstSeen (orderKeys rows)
   \<and> processOrders (filter (\<lambda>r. orderKey r \<noteq> None) rows) = processOrders rows
   \<and> (\<forall>ord\<in>set (processOrders rows).
         items ord = map lineItem (itemRows (orderId ord) rows) @ filter isAddon (items ord)
       \<and> length (filter isAddon (items ord)) \<le> 1)"
proof -
  have ids: "map orderId (processOrders rows) = firstSeen (orderKeys rows)"
    by (simp add: processOrders_keyed comp_def orderId_finalizeOrder orderId_aggregated)
  have its: "items ord = map lineItem (itemRows (orderId ord) rows) @ filter isAddon (items ord)
       \<and> length (filter isAddon (items ord)) \<le> 1"
    if "ord \<in> set (processOrders rows)" for ord
  proof -
    from that obtain k where ord: "ord = finalizeOrder (aggregated rows k)"
      using processOrders_member by blast
    show ?thesis
      by (simp add: ord items_finalizeOrder items_aggregated orderId_finalizeOrder
          orderId_aggregated)
  qed
  from ids its processOrders_skips [of rows] show ?thesis by blast
qed

theorem processOrders_ordering_witness:
  "map orderId (processOrders exampleRows) = [js ''A'', js ''B'', js ''C'']
   \<and> map (\<lambda>ord. map name (items ord)) (processOrders exampleRows)
       = [[js ''pen'', [0x904B, 0x8CBB]], [js ''ink'', js ''cap''], [[0x904B, 0x8CBB]]]"
proof -
  have ids: "map orderId (processOrders exampleRows) = [js ''A'', js ''B'', js ''C'']"
    using processOrders_ordering [of exampleRows] by (simp add: exampleRows_firstSeen)
  obtain a b c where abc: "processOrders exampleRows = [a, b, c]"
    by (simp add: processOrders_keyed exampleRows_firstSeen)
  have split: "list_all (\<lambda>ord. items ord
        = map lineItem (itemRows (orderId ord) exampleRows) @ filter isAddon (items ord))
      (processOrders exampleRows)"
    using processOrders_ordering [of exampleRows] by (simp add: list_all_iff)
  note addons = exampleRows_addons
  have names: "map name (map lineItem (itemRows (js ''A'') exampleRows)) = [js ''pen'']"
    "map name (map lineItem (itemRows (js ''B'') exampleRows)) = [js ''ink'', js ''cap'']"
    "map name (map lineItem (itemRows (js ''C'') exampleRows)) = []"
    by (simp_all only: exampleRows_items) simp_all
  from ids abc have id3: "orderId a = js ''A''" "orderId b = js ''B''" "orderId c = js ''C''"
    by simp_all
  from addons abc have ad3: "filter isAddon (items a) = [shippingAddon]"
    "filter isAddon (items b) = []" "filter isAddon (items c) = [shippingAddon]"
    by simp_all
  from split abc have it3:
    "items a = map lineItem (itemRows (js ''A'') exampleRows) @ [shippingAddon]"
    "items b = map lineItem (itemRows (js ''B'') exampleRows)"
    "items c = map lineItem (itemRows (js ''C'') exampleRows) @ [shippingAddon]"
    by (simp_all add: id3 ad3)
  have "map name (items a) = [js ''pen'', [0x904B, 0x8CBB]]"
    "map name (items b) = [js ''ink'', js ''cap'']"
    "map name (items c) = [[0x904B, 0x8CBB]]"
    unfolding it3 by (simp_all only: map_append names) (simp_all add: shippingAddon_def)
  with ids show ?thesis by (simp add: abc)
qed

lemma filter_keyed_single:
  "distinct ks \<Longrightarrow> k \<in> set ks \<Longrightarrow> (\<And>k'. f (g k') = k') \<Longrightarrow>
   filter (\<lambda>x. f x = k) (map g ks) = [g k]"
proof (induction ks)
  case Nil
  then show ?case by simp
next
  case (Cons a ks)
  show ?case
  proof (cases "a = k")
    case True
    with Cons.prems have "k \<notin> set ks" by simp
    then have "filter (\<lambda>x. f x = k) (map g ks) = []"
      using Cons.prems(3) by (auto simp: filter_empty_conv)
    with True Cons.prems(3) show ?thesis by simp
  next
    case False
    with Cons show ?thesis by simp
  qed
qed

lemma processOrders_of_key:
  "k \<in> set (orderKeys rows) \<Longrightarrow>
   filter (\<lambda>ord. orderId ord = k) (processOrders rows) = [finalizeOrder (aggregated rows k)]"
  unfolding processOrders_keyed
  by (rule filter_keyed_single) (simp_all add: orderId_finalizeOrder orderId_aggregated)

lemma calculatedSubtotal_Nil: "calculatedSubtotal [] = Fin 0"
  by (simp add: calculatedSubtotal_def)

lemma movaRow_orderId: "movaRow ord item ! 26 = Str (orderId ord)"
  by (simp add: movaRow_cells)

lemma filter_concat_map:
  "filter P (concat (map f xs)) = concat (map (\<lambda>x. filter P (f x)) xs)"
  by (induction xs) simp_all

lemma rows_of_order:
  "filter (\<lambda>row. row ! 26 = Str k) (tl (convertToMovaRows orders))
     = concat (map (\<lambda>ord. map (movaRow ord) (items ord)) (filter (\<lambda>ord. orderId ord = k) orders))"
proof -
  have one: "filter (\<lambda>row. row ! 26 = Str k) (map (movaRow ord) (items ord))
      = (if orderId ord = k then map (movaRow ord) (items ord) else [])" for ord
    by (simp add: filter_map comp_def movaRow_orderId)
  have "concat (map (\<lambda>ord. if orderId ord = k then map (movaRow ord) (items ord) else []) orders)
      = concat (map (\<lambda>ord. map (movaRow ord) (items ord)) (filter (\<lambda>ord. orderId ord = k) orders))"
    by (induction orders) simp_all
  then show ?thesis
    by (simp add: convertToMovaRows_concat filter_concat_map one)
qed

text \<open>
  Claim C10. An order identifier that occurs in the input and none of whose rows has a
  line-item name still gives exactly one order: its subtotal is 0, its only item is the
  shipping addon (sku Z90001, quantity 1, price 120), and exactly one row of the export
  carries its identifier, the row of that addon.
\<close>

theorem order_without_items_is_exported:
  "k \<in> set (orderKeys rows) \<Longrightarrow> itemRows k rows = [] \<Longrightarrow>
   \<exists>ord. filter (\<lambda>ord. orderId ord = k) (processOrders rows) = [ord]
     \<and> subtotal ord = Fin 0 \<and> items ord = [shippingAddon]
     \<and> filter (\<lambda>row. row ! 26 = Str k) (tl (convertToMovaRows (processOrders rows)))
         = [movaRow ord shippingAddon]
     \<and> sku shippingAddon = js ''Z90001'' \<and> quantity shippingAddon = Fin 1
     \<and> price shippingAddon = Fin 120"
proof -
  assume k: "k \<in> set (orderKeys rows)" and none: "itemRows k rows = []"
  let ?ord = "finalizeOrder (aggregated rows k)"
  have its: "items (aggregated rows k) = []"
    by (simp add: items_aggregated none)
  have "subtotal ?ord = Fin 0"
    by (simp add: subtotal_finalizeOrder its calculatedSubtotal_Nil)
  moreover have items: "items ?ord = [shippingAddon]"
    by (simp add: items_finalizeOrder its calculatedSubtotal_Nil)
  moreover have "filter (\<lambda>row. row ! 26 = Str k) (tl (convertToMovaRows (processOrders rows)))
      = [movaRow ?ord shippingAddon]"
    by (simp only: rows_of_order processOrders_of_key [OF k]) (simp add: items)
  ultimately show ?thesis
    using processOrders_of_key [OF k] by (simp add: shippingAddon_def)
qed

theorem order_without_items_is_exported_witness:
  "js ''C'' \<in> set (orderKeys exampleRows) \<and> itemRows (js ''C'') exampleRows = []
   \<and> (\<exists>ord. filter (\<lambda>ord. orderId ord = js ''C'') (processOrders exampleRows) = [ord]
        \<and> subtotal ord = Fin 0 \<and> items ord = [shippingAddon]
        \<and> filter (\<lambda>row. row ! 26 = Str (js ''C''))
             (tl (convertToMovaRows (processOrders exampleRows)))
            = [movaRow ord shippingAddon])"
proof -
  have k: "js ''C'' \<in> set (orderKeys exampleRows)"
    by (simp add: exampleRows_keys js_simps)
  have none: "itemRows (js ''C'') exampleRows = []"
    using exampleRows_items(3) by simp
  from order_without_items_is_exported [OF k none] k none show ?thesis by blast
qed

subsection \<open>Running the business rule twice\<close>

















lemma parseShopifyCSV_Failed: "parseShopifyCSV (Failed e) = Inl e"
  by (simp add: parseShopifyCSV_def)




subsection \<open>Invoice metadata\<close>
















end
